theory Spec2Isabelle
  imports Main
begin

section \<open>Python values that reach the handlers\<close>

text \<open>
  A Python \<open>str\<close> is a sequence of Unicode code points; a code point is kept as its number.
  Source literals are ASCII and are written \<open>str ''...''\<close>.
\<close>

type_synonym pystr = "nat list"

definition str :: "string \<Rightarrow> pystr" where
  "str s = map of_char s"

text \<open>
  The values the JSON decoder hands to a handler: \<open>None\<close>, \<open>bool\<close>, \<open>int\<close> (unbounded),
  \<open>float\<close>, \<open>str\<close>, \<open>list\<close> and \<open>dict\<close>. A \<open>dict\<close> keeps its items in insertion order, so it
  is an association list; the keys of a decoded JSON object are strings, and distinct,
  which nothing below relies on. The type \<open>'f\<close>
  stands for the interpreter's floats, whose arithmetic and printing are not part of this
  program.
\<close>

datatype 'f pyval =
    PNone
  | PBool bool
  | PInt int
  | PFloat 'f
  | PStr pystr
  | PList "'f pyval list"
  | PDict "(pystr \<times> 'f pyval) list"

text \<open>
  What the interpreter supplies and the program only uses: the \<open>repr\<close> of a float, the
  Unicode database's test for printable code points (consulted for code points above
  ASCII only), the comparison \<open>==\<close> of a float with a float and with an integer, and the
  setting \<open>sys.int_max_str_digits\<close>, the largest number of digits converted between text
  and \<open>int\<close> (4300 unless changed; 0 switches the limit off).
\<close>

record 'f runtime =
  float_repr :: "'f \<Rightarrow> pystr"
  isprintable :: "nat \<Rightarrow> bool"
  float_eq :: "'f \<Rightarrow> 'f \<Rightarrow> bool"
  float_eq_int :: "'f \<Rightarrow> int \<Rightarrow> bool"
  int_max_str_digits :: nat

section \<open>\<open>repr\<close> and \<open>str\<close> of the interpreter\<close>

text \<open>Decimal digits of a natural number, most significant first (\<open>str(int)\<close>).\<close>

fun digits :: "nat \<Rightarrow> pystr" where
  "digits n = (if n < 10 then [48 + n] else digits (n div 10) @ [48 + n mod 10])"

declare digits.simps [simp del]

definition int_repr :: "int \<Rightarrow> pystr" where
  "int_repr i = (if i < 0 then 45 # digits (nat (- i)) else digits (nat i))"

text \<open>Lower-case hexadecimal digit, and a code point as \<open>k\<close> hexadecimal digits.\<close>

definition hexdigit :: "nat \<Rightarrow> nat" where
  "hexdigit d = (if d < 10 then 48 + d else 87 + d)"

fun hex :: "nat \<Rightarrow> nat \<Rightarrow> pystr" where
  "hex 0 c = []"
| "hex (Suc k) c = hex k (c div 16) @ [hexdigit (c mod 16)]"

text \<open>
  \<open>repr\<close> of a \<open>str\<close>. The quote is the apostrophe (39) unless the string holds an
  apostrophe and no double quote (34); then it is the double quote. The quote in use and
  the backslash (92) are escaped with a backslash; tab, newline and carriage return become
  \<open>\t\<close>, \<open>\n\<close>, \<open>\r\<close>; the other ASCII control characters and DEL become \<open>\xhh\<close>; the other
  ASCII characters are copied; a code point above ASCII is copied when it is printable and
  written \<open>\xhh\<close>, \<open>\uhhhh\<close> or \<open>\Uhhhhhhhh\<close> otherwise.
\<close>

definition repr_quote :: "pystr \<Rightarrow> nat" where
  "repr_quote s = (if 39 \<in> set s \<and> 34 \<notin> set s then 34 else 39)"

definition repr_char :: "'f runtime \<Rightarrow> nat \<Rightarrow> nat \<Rightarrow> pystr" where
  "repr_char rt quote ch =
     (if ch = quote \<or> ch = 92 then [92, ch]
      else if ch = 9 then [92, 116]
      else if ch = 10 then [92, 110]
      else if ch = 13 then [92, 114]
      else if ch < 32 \<or> ch = 127 then [92, 120] @ hex 2 ch
      else if ch < 127 then [ch]
      else if \<not> isprintable rt ch then
        (if ch \<le> 255 then [92, 120] @ hex 2 ch
         else if ch \<le> 65535 then [92, 117] @ hex 4 ch
         else [92, 85] @ hex 8 ch)
      else [ch])"

definition str_repr :: "'f runtime \<Rightarrow> pystr \<Rightarrow> pystr" where
  "str_repr rt s =
     (let quote = repr_quote s in [quote] @ concat (map (repr_char rt quote) s) @ [quote])"

text \<open>\<open>sep.join(xs)\<close>.\<close>

fun join :: "pystr \<Rightarrow> pystr list \<Rightarrow> pystr" where
  "join sep [] = []"
| "join sep [x] = x"
| "join sep (x # y # ys) = x @ sep @ join sep (y # ys)"

text \<open>
  \<open>repr\<close> of a value: \<open>None\<close>, \<open>True\<close>, \<open>False\<close>, the decimal digits of an \<open>int\<close>, the
  elements of a \<open>list\<close> between brackets and the \<open>key: value\<close> items of a \<open>dict\<close> between
  braces, both separated by a comma and a space.
\<close>

fun repr :: "'f runtime \<Rightarrow> 'f pyval \<Rightarrow> pystr" where
  "repr rt PNone = str ''None''"
| "repr rt (PBool b) = (if b then str ''True'' else str ''False'')"
| "repr rt (PInt i) = int_repr i"
| "repr rt (PFloat x) = float_repr rt x"
| "repr rt (PStr s) = str_repr rt s"
| "repr rt (PList xs) = str ''['' @ join (str '', '') (map (repr rt) xs) @ str '']''"
| "repr rt (PDict kvs) =
     str ''{'' @ join (str '', '') (map (\<lambda>(k, v). str_repr rt k @ str '': '' @ repr rt v) kvs)
       @ str ''}''"

text \<open>
  A replacement field \<open>{item}\<close> of an f-string is \<open>format(item, '')\<close>, which is \<open>str(item)\<close>:
  the string itself for a \<open>str\<close>, and the \<open>repr\<close> for the other values of this model.
\<close>

fun format :: "'f runtime \<Rightarrow> 'f pyval \<Rightarrow> pystr" where
  "format rt (PStr s) = s"
| "format rt v = repr rt v"

section \<open>Equality of values\<close>


section \<open>The JSON decoder\<close>






section \<open>The handlers\<close>

text \<open>
  \<^verbatim>\<open>
  @app.get("/")
  def read_root():
      return {"message": "This is Get Request from python backend"}

  @app.post("/", response_model=dict)
  def create_item(item: dict):
      return {"message": f"This is Post Request from python backend and here is response {item}"}
  \<close>
\<close>

definition read_root :: "unit \<Rightarrow> 'f pyval" where
  "read_root _ = PDict [(str ''message'', PStr (str ''This is Get Request from python backend''))]"

definition create_item :: "'f runtime \<Rightarrow> (pystr \<times> 'f pyval) list \<Rightarrow> 'f pyval" where
  "create_item rt item =
     PDict [(str ''message'',
             PStr (str ''This is Post Request from python backend and here is response ''
                   @ format rt (PDict item)))]"

section \<open>Requests, responses and routing\<close>

text \<open>
  A request as the framework presents it to the routes: method, path, query parameters,
  headers, and the body as the framework's JSON decoder delivered it (\<open>None\<close> when no JSON
  value was decoded). A response is a status code and the returned value, which the
  framework encodes as JSON.
\<close>

datatype http_method = GET | HEAD | POST | PUT | PATCH | DELETE | OPTIONS

record 'f request =
  meth :: http_method
  path :: pystr
  query :: "(pystr \<times> pystr) list"
  headers :: "(pystr \<times> pystr) list"
  body :: "'f pyval option"

record 'f response =
  status :: nat
  content :: "'f pyval"

text \<open>
  The two ways a request ends without a handler of this program running: no route
  declared for the method and path, or a body that is not the \<open>dict\<close> the parameter
  \<open>item: dict\<close> asks for. The framework then answers by itself; that answer is not code of
  this program and is not modelled.
\<close>

datatype refusal = No_route | Invalid_body

text \<open>
  The routes declared by the two decorators, both on the path \<open>/\<close>. Neither passes a
  \<open>status_code\<close>, so a returned value is sent with the framework's default, 200.
\<close>

definition dispatch :: "'f runtime \<Rightarrow> 'f request \<Rightarrow> refusal + 'f response" where
  "dispatch rt req =
     (if path req = str ''/'' \<and> meth req = GET then
        Inr \<lparr>status = 200, content = read_root ()\<rparr>
      else if path req = str ''/'' \<and> meth req = POST then
        (case body req of
           Some (PDict item) \<Rightarrow> Inr \<lparr>status = 200, content = create_item rt item\<rparr>
         | _ \<Rightarrow> Inl Invalid_body)
      else Inl No_route)"


section \<open>Start of the process\<close>

text \<open>
  \<^verbatim>\<open>
  app = FastAPI()
  app.add_middleware(
      CORSMiddleware,
      allow_origins=[os.getenv("ALLOWED_URL", "http://localhost:3000")],
      allow_credentials=True,
      allow_methods=["*"],
      allow_headers=["*"],
  )
  \<close>
  The state of the process is the middleware registered on \<open>app\<close>, the environment, and a
  log of the environment variables read so far, kept to count the reads.
\<close>

record cors =
  allow_origins :: "pystr list"
  allow_credentials :: bool
  allow_methods :: "pystr list"
  allow_headers :: "pystr list"

record state =
  middleware :: "cors list"
  environ :: "pystr \<rightharpoonup> pystr"
  env_reads :: "pystr list"

definition FastAPI :: "(pystr \<rightharpoonup> pystr) \<Rightarrow> state" where
  "FastAPI env = \<lparr>middleware = [], environ = env, env_reads = []\<rparr>"

definition getenv :: "pystr \<Rightarrow> pystr \<Rightarrow> state \<Rightarrow> pystr \<times> state" where
  "getenv key dflt s =
     ((case environ s key of None \<Rightarrow> dflt | Some v \<Rightarrow> v),
      s\<lparr>env_reads := env_reads s @ [key]\<rparr>)"

definition add_middleware :: "cors \<Rightarrow> state \<Rightarrow> state" where
  "add_middleware c s = s\<lparr>middleware := c # middleware s\<rparr>"

definition startup :: "(pystr \<rightharpoonup> pystr) \<Rightarrow> state" where
  "startup env =
     (let (origin, s) = getenv (str ''ALLOWED_URL'') (str ''http://localhost:3000'') (FastAPI env)
      in add_middleware
           \<lparr>allow_origins = [origin], allow_credentials = True,
            allow_methods = [str ''*''], allow_headers = [str ''*'']\<rparr> s)"

section \<open>Serving requests\<close>

text \<open>
  One request is answered in the current state and leaves a state behind; the handlers
  take no argument but \<open>item\<close> and touch no global. A run of the process answers its
  requests one after the other.
\<close>

definition handle :: "'f runtime \<Rightarrow> state \<Rightarrow> 'f request \<Rightarrow> (refusal + 'f response) \<times> state" where
  "handle rt s req = (dispatch rt req, s)"

fun serve :: "'f runtime \<Rightarrow> state \<Rightarrow> 'f request list \<Rightarrow> (refusal + 'f response) list \<times> state" where
  "serve rt s [] = ([], s)"
| "serve rt s (req # reqs) =
     (let (out, s') = handle rt s req;
          (outs, s'') = serve rt s' reqs
      in (out # outs, s''))"

section \<open>Sample inputs\<close>

definition sample_runtime :: "unit runtime" where
  "sample_runtime =
     \<lparr>float_repr = (\<lambda>_. str ''0.5''), isprintable = (\<lambda>c. 160 < c \<and> c < 256 \<and> c \<noteq> 173),
      float_eq = (\<lambda>_ _. True), float_eq_int = (\<lambda>_ _. False), int_max_str_digits = 4300\<rparr>"

definition sample_get :: "unit request" where
  "sample_get = \<lparr>meth = GET, path = str ''/'', query = [(str ''page'', str ''2'')],
     headers = [(str ''origin'', str ''http://evil.example'')], body = None\<rparr>"

definition sample_item :: "(pystr \<times> unit pyval) list" where
  "sample_item = [(str ''it's'', PList [PInt (- 120), PNone, PBool True]), (str ''b'', PDict [])]"

definition sample_post :: "unit request" where
  "sample_post = \<lparr>meth = POST, path = str ''/'', query = [],
     headers = [(str ''content-type'', str ''application/json'')],
     body = Some (PDict sample_item)\<rparr>"




definition sample_env :: "pystr \<rightharpoonup> pystr" where
  "sample_env = [str ''ALLOWED_URL'' \<mapsto> str ''https://example.com'']"

section \<open>Properties\<close>

lemmas eval_simps =
  str_def str_repr_def repr_quote_def repr_char_def int_repr_def digits.simps hexdigit_def

lemma format_dict: "format rt (PDict item) = repr rt (PDict item)"
  by simp

lemma serve_map: "serve rt s reqs = (map (dispatch rt) reqs, s)"
  by (induction reqs) (simp_all add: handle_def)



lemma startup_eq:
  "startup env =
     \<lparr>middleware =
        [\<lparr>allow_origins =
            [case env (str ''ALLOWED_URL'') of None \<Rightarrow> str ''http://localhost:3000'' | Some v \<Rightarrow> v],
          allow_credentials = True, allow_methods = [str ''*''], allow_headers = [str ''*'']\<rparr>],
      environ = env, env_reads = [str ''ALLOWED_URL'']\<rparr>"
  by (simp add: startup_def getenv_def add_middleware_def FastAPI_def)




text \<open>
  C2. Every request \<open>GET /\<close>, whatever its headers and query parameters, is answered with
  status 200 and exactly the body \<open>{"message": "This is Get Request from python backend"}\<close>.
\<close>

theorem get_root_constant:
  assumes "meth req = GET" and "path req = str ''/''"
  shows "dispatch rt req =
     Inr \<lparr>status = 200,
          content = PDict [(str ''message'', PStr (str ''This is Get Request from python backend''))]\<rparr>"
  using assms by (simp add: dispatch_def read_root_def)

theorem get_root_constant_witness:
  "meth sample_get = GET \<and> path sample_get = str ''/'' \<and>
   query sample_get \<noteq> [] \<and> headers sample_get \<noteq> [] \<and>
   dispatch sample_runtime sample_get =
     Inr \<lparr>status = 200,
          content = PDict [(str ''message'', PStr (str ''This is Get Request from python backend''))]\<rparr>"
proof -
  have m: "meth sample_get = GET" and p: "path sample_get = str ''/''"
    by (simp_all add: sample_get_def)
  from get_root_constant [OF m p, of sample_runtime] m p show ?thesis
    by (simp add: sample_get_def)
qed

text \<open>
  C3. \<open>POST /\<close> with the body \<open>{"a": 1}\<close> is answered with status 200 and the message ending
  in \<open>{'a': 1}\<close>: the key between apostrophes, a colon and a space, the integer in decimal.
  The answer is the same for every interpreter runtime, query and header list.
\<close>

theorem post_a_1:
  "dispatch rt \<lparr>meth = POST, path = str ''/'', query = q, headers = h,
                 body = Some (PDict [(str ''a'', PInt 1)])\<rparr> =
     Inr \<lparr>status = 200,
          content = PDict [(str ''message'',
            PStr (str ''This is Post Request from python backend and here is response {'a': 1}''))]\<rparr>"
  by (simp add: dispatch_def create_item_def eval_simps)

text \<open>
  C10. \<open>POST /\<close> with the empty object \<open>{}\<close> as body is answered with status 200 and the
  message ending in \<open>{}\<close>.
\<close>

theorem post_empty_object:
  "dispatch rt \<lparr>meth = POST, path = str ''/'', query = q, headers = h, body = Some (PDict [])\<rparr> =
     Inr \<lparr>status = 200,
          content = PDict [(str ''message'',
            PStr (str ''This is Post Request from python backend and here is response {}''))]\<rparr>"
  by (simp add: dispatch_def create_item_def str_def)

text \<open>
  C5. When \<open>ALLOWED_URL\<close> is not in the environment, starting the process is not an error:
  the allowed origins are the one literal \<open>http://localhost:3000\<close>. The variable is read once
  during start-up, and serving requests reads nothing more: it leaves the state, with its
  log of reads, as start-up left it.
\<close>

theorem unset_origin_default:
  assumes "env (str ''ALLOWED_URL'') = None"
  shows "map allow_origins (middleware (startup env)) = [[str ''http://localhost:3000'']] \<and>
         env_reads (startup env) = [str ''ALLOWED_URL''] \<and>
         snd (serve rt (startup env) reqs) = startup env"
  using assms by (simp add: startup_eq serve_map)

theorem unset_origin_default_witness:
  "(Map.empty :: pystr \<rightharpoonup> pystr) (str ''ALLOWED_URL'') = None \<and>
   map allow_origins (middleware (startup Map.empty)) = [[str ''http://localhost:3000'']] \<and>
   env_reads (startup Map.empty) = [str ''ALLOWED_URL''] \<and>
   snd (serve sample_runtime (startup Map.empty) [sample_get, sample_post]) = startup Map.empty"
proof -
  have h: "(Map.empty :: pystr \<rightharpoonup> pystr) (str ''ALLOWED_URL'') = None"
    by simp
  from unset_origin_default [of Map.empty sample_runtime "[sample_get, sample_post]", OF h] h
  show ?thesis by simp
qed

text \<open>
  C6. Whatever the environment, the policy registered at start-up is the only middleware;
  its allowed origins are the one-element list holding the value of \<open>ALLOWED_URL\<close> (the
  default when the variable is absent), credentials are allowed, and methods and headers
  are both the wildcard \<open>["*"]\<close>, which stands for all of them.
\<close>

theorem cors_policy:
  "middleware (startup env) =
     [\<lparr>allow_origins =
         [case env (str ''ALLOWED_URL'') of None \<Rightarrow> str ''http://localhost:3000'' | Some v \<Rightarrow> v],
       allow_credentials = True, allow_methods = [str ''*''], allow_headers = [str ''*'']\<rparr>]"
  by (simp add: startup_eq)

theorem cors_policy_witness:
  "middleware (startup sample_env) =
     [\<lparr>allow_origins = [str ''https://example.com''], allow_credentials = True,
       allow_methods = [str ''*''], allow_headers = [str ''*'']\<rparr>] \<and>
   middleware (startup Map.empty) =
     [\<lparr>allow_origins = [str ''http://localhost:3000''], allow_credentials = True,
       allow_methods = [str ''*''], allow_headers = [str ''*'']\<rparr>]"
  using cors_policy [of sample_env] cors_policy [of Map.empty]
  by (simp add: sample_env_def)

text \<open>
  C7. Every response that comes from a handler is a \<open>dict\<close> with the single key \<open>message\<close>
  and a string value: the constant text for \<open>GET\<close>, and for \<open>POST\<close> the constant prefix
  followed by the \<open>repr\<close> of the received object.
\<close>

theorem envelope_message:
  assumes "dispatch rt req = Inr r"
  shows "\<exists>s. content r = PDict [(str ''message'', PStr s)] \<and>
             (meth req = GET \<longrightarrow> s = str ''This is Get Request from python backend'') \<and>
             (meth req = POST \<longrightarrow>
                (\<exists>item. body req = Some (PDict item) \<and>
                   s = str ''This is Post Request from python backend and here is response ''
                       @ repr rt (PDict item)))"
  using assms
  by (auto simp: dispatch_def read_root_def create_item_def
           split: if_splits option.splits pyval.splits)

theorem envelope_message_witness:
  "dispatch sample_runtime sample_post = Inr \<lparr>status = 200, content = create_item sample_runtime sample_item\<rparr> \<and>
   (\<exists>s. create_item sample_runtime sample_item = PDict [(str ''message'', PStr s)] \<and>
        (\<exists>item. body sample_post = Some (PDict item) \<and>
           s = str ''This is Post Request from python backend and here is response ''
               @ repr sample_runtime (PDict item)))"
proof -
  have h: "dispatch sample_runtime sample_post =
             Inr \<lparr>status = 200, content = create_item sample_runtime sample_item\<rparr>"
    by (simp add: dispatch_def sample_post_def str_def)
  have m: "meth sample_post = POST"
    by (simp add: sample_post_def)
  from envelope_message [OF h] m h show ?thesis by simp
qed




text \<open>
  C9. When \<open>ALLOWED_URL\<close> is set to the empty string, the allowed origins are the list
  holding the empty string, not the default \<open>http://localhost:3000\<close>.
\<close>

theorem empty_origin_kept:
  assumes "env (str ''ALLOWED_URL'') = Some []"
  shows "map allow_origins (middleware (startup env)) = [[[]]] \<and>
         map allow_origins (middleware (startup env)) \<noteq> [[str ''http://localhost:3000'']]"
  using assms by (simp add: startup_eq str_def)

theorem empty_origin_kept_witness:
  "[str ''ALLOWED_URL'' \<mapsto> []] (str ''ALLOWED_URL'') = Some [] \<and>
   map allow_origins (middleware (startup [str ''ALLOWED_URL'' \<mapsto> []])) = [[[]]] \<and>
   map allow_origins (middleware (startup [str ''ALLOWED_URL'' \<mapsto> []]))
     \<noteq> [[str ''http://localhost:3000'']]"
proof -
  have h: "[str ''ALLOWED_URL'' \<mapsto> ([]::pystr)] (str ''ALLOWED_URL'') = Some []"
    by simp
  from empty_origin_kept [of "[str ''ALLOWED_URL'' \<mapsto> []]", OF h] h show ?thesis
    by (simp add: str_def)
qed

end
